theory Spec2Isabelle
  imports Main "HOL-Library.Word"
begin

unbundle bit_operations_syntax

section \<open>The register maps of the UDP offload engine\<close>

text \<open>
  The headers \<^verbatim>\<open>main_uoe_registers.h\<close> and \<^verbatim>\<open>test_uoe_registers.h\<close> each declare one
  struct whose members are, in order, either a union of a raw \<^verbatim>\<open>unsigned int regValue\<close>
  with a struct of \<^verbatim>\<open>unsigned int name : width\<close> bit-fields, or a plain
  \<^verbatim>\<open>unsigned int\<close> padding word.  A bit-field is a name with its declared width, a
  register is a name with its bit-fields in declaration order, and a block is the list
  of its members in declaration order.
\<close>

type_synonym u32 = "32 word"

type_synonym bitfield = "string \<times> nat"

datatype member = Reg string "bitfield list" | Pad string

definition main_uoe_registers :: "member list" where
  "main_uoe_registers =
    [Reg ''reg_version''
       [(''version'', 8), (''revision'', 8), (''debug'', 16)],
     Reg ''reg_local_mac_addr_lsb''
       [(''local_mac_addr_lsb'', 32)],
     Reg ''reg_local_mac_addr_msb''
       [(''local_mac_addr_msb'', 16), (''padding1'', 16)],
     Reg ''reg_local_ip_addr''
       [(''local_ip_addr'', 32)],
     Reg ''reg_raw_dest_mac_addr_lsb''
       [(''raw_dest_mac_addr_lsb'', 32)],
     Reg ''reg_raw_dest_mac_addr_msb''
       [(''raw_dest_mac_addr_msb'', 16), (''padding1'', 16)],
     Reg ''reg_ipv4_time_to_leave''
       [(''ttl'', 8), (''padding1'', 24)],
     Reg ''reg_filtering_control''
       [(''broadcast_filter_enable'', 1), (''ipv4_multicast_filter_enable'', 1),
        (''unicast_filter_enable'', 1), (''padding3'', 29)],
     Reg ''reg_ipv4_multicast_ip_addr_1''
       [(''multicast_ip_addr_1'', 28), (''multicast_ip_addr_1_enable'', 1),
        (''padding2'', 3)],
     Reg ''reg_ipv4_multicast_ip_addr_2''
       [(''multicast_ip_addr_2'', 28), (''multicast_ip_addr_2_enable'', 1),
        (''padding2'', 3)],
     Reg ''reg_ipv4_multicast_ip_addr_3''
       [(''multicast_ip_addr_3'', 28), (''multicast_ip_addr_3_enable'', 1),
        (''padding2'', 3)],
     Reg ''reg_ipv4_multicast_ip_addr_4''
       [(''multicast_ip_addr_4'', 28), (''multicast_ip_addr_4_enable'', 1),
        (''padding2'', 3)],
     Reg ''reg_arp_configuration''
       [(''arp_timeout_ms'', 12), (''arp_tryings'', 4), (''arp_gratuitous_req'', 1),
        (''arp_rx_target_ip_filter'', 2), (''arp_rx_test_local_ip_conflict'', 1),
        (''arp_table_clear'', 1), (''padding6'', 11)],
     Reg ''reg_arp_sw_req''
       [(''arp_sw_req_dest_ip_addr'', 32)],
     Reg ''reg_config_done''
       [(''config_done'', 1), (''padding1'', 31)],
     Pad ''padding15'',
     Reg ''reg_monitoring_crc_filter''
       [(''crc_filter_counter'', 32)],
     Reg ''reg_monitoring_mac_filter''
       [(''mac_filter_counter'', 32)],
     Reg ''reg_monitoring_ext_drop''
       [(''ext_drop_counter'', 32)],
     Reg ''reg_monitoring_raw_drop''
       [(''raw_drop_counter'', 32)],
     Reg ''reg_monitoring_udp_drop''
       [(''udp_drop_counter'', 32)],
     Reg ''reg_interrupt_status''
       [(''irq_init_done_status'', 1), (''irq_arp_table_clear_done_status'', 1),
        (''irq_arp_ip_conflict_status'', 1), (''irq_arp_mac_conflict_status'', 1),
        (''irq_arp_error_status'', 1), (''irq_arp_rx_fifo_overflow_status'', 1),
        (''irq_router_data_rx_fifo_overflow_status'', 1),
        (''irq_router_crc_rx_fifo_overflow_status'', 1),
        (''irq_ipv4_rx_frag_offset_error_status'', 1), (''padding9'', 23)],
     Reg ''reg_interrupt_enable''
       [(''irq_init_done_enable'', 1), (''irq_arp_table_clear_done_enable'', 1),
        (''irq_arp_ip_conflict_enable'', 1), (''irq_arp_mac_conflict_enable'', 1),
        (''irq_arp_error_enable'', 1), (''irq_arp_rx_fifo_overflow_enable'', 1),
        (''irq_router_data_rx_fifo_overflow_enable'', 1),
        (''irq_router_crc_rx_fifo_overflow_enable'', 1),
        (''irq_ipv4_rx_frag_offset_error_enable'', 1), (''padding9'', 23)],
     Reg ''reg_interrupt_clear''
       [(''irq_init_done_clear'', 1), (''irq_arp_table_clear_done_clear'', 1),
        (''irq_arp_ip_conflict_clear'', 1), (''irq_arp_mac_conflict_clear'', 1),
        (''irq_arp_error_clear'', 1), (''irq_arp_rx_fifo_overflow_clear'', 1),
        (''irq_router_data_rx_fifo_overflow_clear'', 1),
        (''irq_router_crc_rx_fifo_overflow_clear'', 1),
        (''irq_ipv4_rx_frag_offset_error_clear'', 1), (''padding9'', 23)],
     Reg ''reg_interrupt_set''
       [(''irq_init_done_set'', 1), (''irq_arp_table_clear_done_set'', 1),
        (''irq_arp_ip_conflict_set'', 1), (''irq_arp_mac_conflict_set'', 1),
        (''irq_arp_error_set'', 1), (''irq_arp_rx_fifo_overflow_set'', 1),
        (''irq_router_data_rx_fifo_overflow_set'', 1),
        (''irq_router_crc_rx_fifo_overflow_set'', 1),
        (''irq_ipv4_rx_frag_offset_error_set'', 1), (''padding9'', 23)]]"

definition test_uoe_registers :: "member list" where
  "test_uoe_registers =
    [Reg ''reg_gen_chk_control''
       [(''loopback_mac_en'', 1), (''loopback_udp_en'', 1), (''gen_start'', 1),
        (''gen_stop'', 1), (''chk_start'', 1), (''chk_stop'', 1), (''padding6'', 26)],
     Reg ''reg_gen_config''
       [(''gen_frame_size_type'', 1), (''padding1'', 16),
        (''gen_frame_size_static'', 16), (''gen_rate_limitation'', 8)],
     Reg ''reg_gen_nb_bytes_lsb''
       [(''gen_nb_bytes_lsb'', 32)],
     Reg ''reg_gen_nb_bytes_msb''
       [(''gen_nb_bytes_msb'', 32)],
     Reg ''reg_gen_test_duration_lsb''
       [(''gen_test_duration_lsb'', 32)],
     Reg ''reg_gen_test_duration_msb''
       [(''gen_test_duration_msb'', 32)],
     Reg ''reg_chk_config''
       [(''chk_frame_size_type'', 1), (''padding1'', 16),
        (''chk_frame_size_static'', 16), (''chk_rate_limitation'', 8)],
     Reg ''reg_chk_nb_bytes_lsb''
       [(''chk_nb_bytes_lsb'', 32)],
     Reg ''reg_chk_nb_bytes_msb''
       [(''chk_nb_bytes_msb'', 32)],
     Reg ''reg_chk_test_duration_lsb''
       [(''chk_test_duration_lsb'', 32)],
     Reg ''reg_chk_test_duration_msb''
       [(''chk_test_duration_msb'', 32)],
     Reg ''reg_lb_gen_udp_port''
       [(''lb_gen_dest_port'', 16), (''lb_gen_src_port'', 16)],
     Reg ''reg_lb_gen_dest_ip_addr''
       [(''lb_gen_dest_ip_addr'', 32)],
     Reg ''reg_chk_udp_port''
       [(''chk_listening_port'', 16), (''padding1'', 16)],
     Reg ''reg_interrupt_status''
       [(''irq_gen_done_status'', 1), (''irq_gen_err_timeout_status'', 1),
        (''irq_chk_done_status'', 1), (''irq_chk_err_frame_size_status'', 1),
        (''irq_chk_err_data_status'', 1), (''irq_chk_err_timeout_status'', 1),
        (''irq_rate_meter_tx_done_status'', 1),
        (''irq_rate_meter_tx_overflow_status'', 1),
        (''irq_rate_meter_rx_done_status'', 1),
        (''irq_rate_meter_rx_overflow_status'', 1), (''padding10'', 22)],
     Reg ''reg_interrupt_enable''
       [(''irq_gen_done_enable'', 1), (''irq_gen_err_timeout_enable'', 1),
        (''irq_chk_done_enable'', 1), (''irq_chk_err_frame_size_enable'', 1),
        (''irq_chk_err_data_enable'', 1), (''irq_chk_err_timeout_enable'', 1),
        (''irq_rate_meter_tx_done_enable'', 1),
        (''irq_rate_meter_tx_overflow_enable'', 1),
        (''irq_rate_meter_rx_done_enable'', 1),
        (''irq_rate_meter_rx_overflow_enable'', 1), (''padding10'', 22)],
     Reg ''reg_interrupt_clear''
       [(''irq_gen_done_clear'', 1), (''irq_gen_err_timeout_clear'', 1),
        (''irq_chk_done_clear'', 1), (''irq_chk_err_frame_size_clear'', 1),
        (''irq_chk_err_data_clear'', 1), (''irq_chk_err_timeout_clear'', 1),
        (''irq_rate_meter_tx_done_clear'', 1),
        (''irq_rate_meter_tx_overflow_clear'', 1),
        (''irq_rate_meter_rx_done_clear'', 1),
        (''irq_rate_meter_rx_overflow_clear'', 1), (''padding10'', 22)],
     Reg ''reg_interrupt_set''
       [(''irq_gen_done_set'', 1), (''irq_gen_err_timeout_set'', 1),
        (''irq_chk_done_set'', 1), (''irq_chk_err_frame_size_set'', 1),
        (''irq_chk_err_data_set'', 1), (''irq_chk_err_timeout_set'', 1),
        (''irq_rate_meter_tx_done_set'', 1), (''irq_rate_meter_tx_overflow_set'', 1),
        (''irq_rate_meter_rx_done_set'', 1), (''irq_rate_meter_rx_overflow_set'', 1),
        (''padding10'', 22)],
     Reg ''reg_tx_rate_meter_ctrl''
       [(''tx_rm_init_counter'', 1), (''padding1'', 31)],
     Reg ''reg_tx_rm_bytes_expt_lsb''
       [(''tx_rm_bytes_expt_lsb'', 32)],
     Reg ''reg_tx_rm_bytes_expt_msb''
       [(''tx_rm_bytes_expt_msb'', 32)],
     Reg ''reg_tx_rm_cnt_bytes_lsb''
       [(''tx_rm_cnt_bytes_lsb'', 32)],
     Reg ''reg_tx_rm_cnt_bytes_msb''
       [(''tx_rm_cnt_bytes_msb'', 32)],
     Reg ''reg_tx_rm_cnt_cycles_lsb''
       [(''tx_rm_cnt_cycles_lsb'', 32)],
     Reg ''reg_tx_rm_cnt_cycles_msb''
       [(''tx_rm_cnt_cycles_msb'', 32)],
     Reg ''reg_rx_rate_meter_ctrl''
       [(''rx_rm_init_counter'', 1), (''padding1'', 31)],
     Reg ''reg_rx_fm_bytes_expt_lsb''
       [(''rx_rm_bytes_expt_lsb'', 32)],
     Reg ''reg_rx_rm_bytes_expt_msb''
       [(''rx_rm_bytes_expt_msb'', 32)],
     Reg ''reg_rx_rm_cnt_bytes_lsb''
       [(''rx_rm_cnt_bytes_lsb'', 32)],
     Reg ''reg_rx_rm_cnt_bytes_msb''
       [(''rx_rm_cnt_bytes_msb'', 32)],
     Reg ''reg_rx_rm_cnt_cycles_lsb''
       [(''rx_rm_cnt_cycles_lsb'', 32)],
     Reg ''reg_rx_rm_cnt_cycles_msb''
       [(''rx_rm_cnt_cycles_msb'', 32)]]"

subsection \<open>Built-in test state\<close>

text \<open>\<^verbatim>\<open>enum T_BIT\<close> of \<^verbatim>\<open>enums_uoe_registers.h\<close>, with the value each enumerator is given.\<close>

datatype T_BIT = no_bit | pbit | ibit | cbit

fun T_BIT_value :: "T_BIT \<Rightarrow> int" where
  "T_BIT_value no_bit = 0"
| "T_BIT_value pbit = 1"
| "T_BIT_value ibit = 2"
| "T_BIT_value cbit = 3"

subsection \<open>Field descriptors\<close>

text \<open>
  Bit-fields are allocated in declaration order from bit 0 of the register: the offset
  of a field is the sum of the widths declared before it in the same register.  C
  leaves the allocation to the implementation; for a register whose widths total at
  most 32 this is what the usual little-endian ABIs do.  A field that this rule places
  at or across bit 32 is outside \<^verbatim>\<open>regValue\<close> under those ABIs as well, which start a
  new storage unit for it.
\<close>

record field_desc =
  f_offset :: nat
  f_width :: nat

fun layout :: "nat \<Rightarrow> bitfield list \<Rightarrow> (string \<times> field_desc) list" where
  "layout off [] = []"
| "layout off ((n, w) # fs) = (n, \<lparr>f_offset = off, f_width = w\<rparr>) # layout (off + w) fs"

fun member_name :: "member \<Rightarrow> string" where
  "member_name (Reg n fs) = n"
| "member_name (Pad n) = n"

fun lookup_reg :: "member list \<Rightarrow> string \<Rightarrow> bitfield list option" where
  "lookup_reg [] r = None"
| "lookup_reg (Reg n fs # ms) r = (if n = r then Some fs else lookup_reg ms r)"
| "lookup_reg (Pad n # ms) r = lookup_reg ms r"

definition descriptor :: "member list \<Rightarrow> string \<Rightarrow> string \<Rightarrow> field_desc option" where
  "descriptor blk r f =
     (case lookup_reg blk r of None \<Rightarrow> None | Some fs \<Rightarrow> map_of (layout 0 fs) f)"

fun regs_of :: "member list \<Rightarrow> (string \<times> bitfield list) list" where
  "regs_of [] = []"
| "regs_of (Reg n fs # ms) = (n, fs) # regs_of ms"
| "regs_of (Pad n # ms) = regs_of ms"

definition reg_bits :: "bitfield list \<Rightarrow> nat" where
  "reg_bits fs = sum_list (map snd fs)"

definition bit_range :: "field_desc \<Rightarrow> nat set" where
  "bit_range d = {f_offset d ..< f_offset d + f_width d}"

fun disjoint_ranges :: "field_desc list \<Rightarrow> bool" where
  "disjoint_ranges [] = True"
| "disjoint_ranges (d # ds) =
     (list_all (\<lambda>e. bit_range d \<inter> bit_range e = {}) ds \<and> disjoint_ranges ds)"

definition well_formed_reg :: "bitfield list \<Rightarrow> bool" where
  "well_formed_reg fs = (disjoint_ranges (map snd (layout 0 fs)) \<and> reg_bits fs = 32)"

definition ill_formed_regs :: "member list \<Rightarrow> string list" where
  "ill_formed_regs blk = map fst (filter (\<lambda>(n, fs). \<not> well_formed_reg fs) (regs_of blk))"

text \<open>The values an unsigned bit-field of the given width can hold.\<close>

definition field_values :: "field_desc \<Rightarrow> nat set" where
  "field_values d = {0 ..< 2 ^ f_width d}"

subsection \<open>Word offsets of the members\<close>

text \<open>
  A padding member is one \<^verbatim>\<open>unsigned int\<close>.  A register union is as large as the larger
  of \<^verbatim>\<open>regValue\<close> (one word) and the words its bit-fields need.
\<close>

fun member_words :: "member \<Rightarrow> nat" where
  "member_words (Reg n fs) = max 1 ((reg_bits fs + 31) div 32)"
| "member_words (Pad n) = 1"

fun word_index :: "member list \<Rightarrow> string \<Rightarrow> nat option" where
  "word_index [] r = None"
| "word_index (m # ms) r =
     (if member_name m = r then Some 0
      else map_option (\<lambda>i. member_words m + i) (word_index ms r))"

definition byte_offset :: "member list \<Rightarrow> string \<Rightarrow> nat option" where
  "byte_offset blk r = map_option (\<lambda>i. 4 * i) (word_index blk r)"

definition block_words :: "member list \<Rightarrow> nat" where
  "block_words blk = sum_list (map member_words blk)"

fun next_member :: "member list \<Rightarrow> string \<Rightarrow> member option" where
  "next_member [] r = None"
| "next_member [m] r = None"
| "next_member (m # m' # ms) r =
     (if member_name m = r then Some m' else next_member (m' # ms) r)"

section \<open>Register field codec\<close>

text \<open>
  Modelled from the spec: the register field codec (\<open>extract\<close>, \<open>insert\<close> and the strict
  variant of \<open>insert\<close>), which the headers imply through their bit-field declarations
  but which is not part of the repository.  \<open>extract\<close> returns the right-shifted,
  width-masked unsigned value; \<open>insert\<close> clears the field's bits in the raw value and
  ORs in the value, truncated to the width and shifted into place.
\<close>

definition extract_field :: "u32 \<Rightarrow> field_desc \<Rightarrow> nat" where
  "extract_field raw d = unat (drop_bit (f_offset d) raw AND mask (f_width d))"

definition insert_field :: "u32 \<Rightarrow> field_desc \<Rightarrow> nat \<Rightarrow> u32" where
  "insert_field raw d v =
     (raw AND NOT (push_bit (f_offset d) (mask (f_width d))))
       OR push_bit (f_offset d) (of_nat v AND mask (f_width d))"

datatype codec_error = OutOfRange

text \<open>
  Modelled from the spec: strict mode of \<open>insert\<close>, which fails with \<open>OutOfRange\<close> when
  the value exceeds \<open>2^width - 1\<close>.
\<close>

definition insert_strict :: "u32 \<Rightarrow> field_desc \<Rightarrow> nat \<Rightarrow> codec_error + u32" where
  "insert_strict raw d v =
     (if v > 2 ^ f_width d - 1 then Inl OutOfRange else Inr (insert_field raw d v))"

text \<open>Every field of a block with its register, its name and its descriptor.\<close>

definition block_fields :: "member list \<Rightarrow> (string \<times> string \<times> field_desc) list" where
  "block_fields blk =
     concat (map (\<lambda>(r, fs). map (\<lambda>(f, d). (r, f, d)) (layout 0 fs)) (regs_of blk))"

definition in_word :: "field_desc \<Rightarrow> bool" where
  "in_word d = (f_offset d + f_width d \<le> 32)"

definition fields_outside_word :: "member list \<Rightarrow> (string \<times> string \<times> field_desc) list" where
  "fields_outside_word blk = filter (\<lambda>(r, f, d). \<not> in_word d) (block_fields blk)"

section \<open>Interrupt registers\<close>

text \<open>
  Each block declares four sibling registers \<^verbatim>\<open>reg_interrupt_status\<close>,
  \<^verbatim>\<open>reg_interrupt_enable\<close>, \<^verbatim>\<open>reg_interrupt_clear\<close> and \<^verbatim>\<open>reg_interrupt_set\<close>.  The field
  of source \<open>s\<close> in the register of kind \<open>k\<close> is named \<open>s_k\<close>; the remaining bits are one
  field whose name starts with \<^verbatim>\<open>padding\<close>.
\<close>

datatype irq_kind = Status_reg | Enable_reg | Clear_reg | Set_reg

fun kind_name :: "irq_kind \<Rightarrow> string" where
  "kind_name Status_reg = ''status''"
| "kind_name Enable_reg = ''enable''"
| "kind_name Clear_reg = ''clear''"
| "kind_name Set_reg = ''set''"

definition irq_kinds :: "irq_kind list" where
  "irq_kinds = [Status_reg, Enable_reg, Clear_reg, Set_reg]"

definition irq_reg_name :: "irq_kind \<Rightarrow> string" where
  "irq_reg_name k = ''reg_interrupt_'' @ kind_name k"

definition is_padding :: "string \<Rightarrow> bool" where
  "is_padding n = (take 7 n = ''padding'')"

definition named_fields :: "bitfield list \<Rightarrow> string list" where
  "named_fields fs = filter (\<lambda>n. \<not> is_padding n) (map fst fs)"

definition drop_suffix :: "string \<Rightarrow> string \<Rightarrow> string option" where
  "drop_suffix suf n =
     (if length suf \<le> length n \<and> drop (length n - length suf) n = suf
      then Some (take (length n - length suf) n) else None)"

definition irq_sources_of :: "member list \<Rightarrow> irq_kind \<Rightarrow> string list" where
  "irq_sources_of blk k =
     (case lookup_reg blk (irq_reg_name k) of
        None \<Rightarrow> []
      | Some fs \<Rightarrow> List.map_filter (drop_suffix (''_'' @ kind_name k)) (named_fields fs))"

definition irq_sources :: "member list \<Rightarrow> string list" where
  "irq_sources blk = irq_sources_of blk Status_reg"

definition irq_bit :: "member list \<Rightarrow> irq_kind \<Rightarrow> string \<Rightarrow> field_desc option" where
  "irq_bit blk k s = descriptor blk (irq_reg_name k) (s @ ''_'' @ kind_name k)"

definition irq_aligned :: "member list \<Rightarrow> string \<Rightarrow> bool" where
  "irq_aligned blk s =
     (case irq_bit blk Status_reg s of
        None \<Rightarrow> False
      | Some d \<Rightarrow> f_width d = 1 \<and> f_offset d < 32
          \<and> list_all (\<lambda>k. irq_bit blk k s = Some d) irq_kinds)"

definition named_count :: "member list \<Rightarrow> irq_kind \<Rightarrow> nat option" where
  "named_count blk k = map_option (\<lambda>fs. length (named_fields fs)) (lookup_reg blk (irq_reg_name k))"

subsection \<open>Interrupt aggregator\<close>

text \<open>
  Modelled from the spec: the interrupt aggregator (\<open>is_pending\<close>, \<open>set_enabled\<close>,
  \<open>clear\<close>, \<open>force\<close>) and the reaction of the hardware to a register write, neither of
  which is part of the repository.  Status is driven by the hardware and read-only;
  a write to the set register raises the status bits written as 1, a write to the clear
  register lowers them, and both registers are self-clearing.  The enable register is
  plain storage.  No hardware assertion happens between two operations.
\<close>

record irq_state =
  status :: u32
  enable :: u32

fun hw_write :: "irq_kind \<Rightarrow> u32 \<Rightarrow> irq_state \<Rightarrow> irq_state" where
  "hw_write Status_reg w st = st"
| "hw_write Enable_reg w st = st\<lparr>enable := w\<rparr>"
| "hw_write Clear_reg w st = st\<lparr>status := status st AND NOT w\<rparr>"
| "hw_write Set_reg w st = st\<lparr>status := status st OR w\<rparr>"

fun hw_read :: "irq_kind \<Rightarrow> irq_state \<Rightarrow> u32" where
  "hw_read Status_reg st = status st"
| "hw_read Enable_reg st = enable st"
| "hw_read Clear_reg st = 0"
| "hw_read Set_reg st = 0"

definition is_pending :: "member list \<Rightarrow> irq_state \<Rightarrow> string \<Rightarrow> bool option" where
  "is_pending blk st s =
     map_option (\<lambda>d. extract_field (hw_read Status_reg st) d \<noteq> 0) (irq_bit blk Status_reg s)"

definition force :: "member list \<Rightarrow> irq_state \<Rightarrow> string \<Rightarrow> irq_state option" where
  "force blk st s =
     map_option (\<lambda>d. hw_write Set_reg (insert_field 0 d 1) st) (irq_bit blk Set_reg s)"

definition clear :: "member list \<Rightarrow> irq_state \<Rightarrow> string \<Rightarrow> irq_state option" where
  "clear blk st s =
     map_option (\<lambda>d. hw_write Clear_reg (insert_field 0 d 1) st) (irq_bit blk Clear_reg s)"

definition set_enabled :: "member list \<Rightarrow> irq_state \<Rightarrow> string \<Rightarrow> bool \<Rightarrow> irq_state option" where
  "set_enabled blk st s b =
     map_option
       (\<lambda>d. hw_write Enable_reg
              (insert_field (hw_read Enable_reg st) d (if b then 1 else 0)) st)
       (irq_bit blk Enable_reg s)"

text \<open>
  Modelled from the spec: one aggregator instance per module.  An operation addressed
  to a module runs on that module's block and instance.
\<close>

datatype module = Main_engine | Test_engine

fun module_block :: "module \<Rightarrow> member list" where
  "module_block Main_engine = main_uoe_registers"
| "module_block Test_engine = test_uoe_registers"

record uoe_irq =
  main_irq :: irq_state
  test_irq :: irq_state

fun on_module ::
  "module \<Rightarrow> (member list \<Rightarrow> irq_state \<Rightarrow> irq_state option) \<Rightarrow> uoe_irq \<Rightarrow> uoe_irq option" where
  "on_module Main_engine op sys =
     map_option (\<lambda>st. sys\<lparr>main_irq := st\<rparr>) (op main_uoe_registers (main_irq sys))"
| "on_module Test_engine op sys =
     map_option (\<lambda>st. sys\<lparr>test_irq := st\<rparr>) (op test_uoe_registers (test_irq sys))"

section \<open>Layout of the registers\<close>

lemma layout_offsets: "\<forall>(n, d) \<in> set (layout off fs). off \<le> f_offset d"
  by (induction off fs rule: layout.induct) fastforce+

text \<open>Fields laid out in declaration order never overlap, whatever their widths.\<close>

lemma disjoint_layout: "disjoint_ranges (map snd (layout off fs))"
proof (induction off fs rule: layout.induct)
  case (1 off)
  then show ?case by simp
next
  case (2 off n w fs)
  have "bit_range \<lparr>f_offset = off, f_width = w\<rparr> \<inter> bit_range e = {}"
    if "e \<in> snd ` set (layout (off + w) fs)" for e
    using that layout_offsets [of "off + w" fs]
    by (fastforce simp: bit_range_def)
  with 2 show ?case by (simp add: list_all_iff)
qed

lemma main_block_well_formed: "ill_formed_regs main_uoe_registers = []"
  by code_simp

lemma main_block_in_word: "fields_outside_word main_uoe_registers = []"
  by code_simp

lemma test_block_outside_word:
  "fields_outside_word test_uoe_registers =
     [(''reg_gen_config'', ''gen_frame_size_static'', \<lparr>f_offset = 17, f_width = 16\<rparr>),
      (''reg_gen_config'', ''gen_rate_limitation'', \<lparr>f_offset = 33, f_width = 8\<rparr>),
      (''reg_chk_config'', ''chk_frame_size_static'', \<lparr>f_offset = 17, f_width = 16\<rparr>),
      (''reg_chk_config'', ''chk_rate_limitation'', \<lparr>f_offset = 33, f_width = 8\<rparr>)]"
  by code_simp

text \<open>
  C3: in every register of both blocks the field bit-ranges are pairwise disjoint and
  the widths sum to exactly 32 bits.  The main block satisfies this
  (\<open>main_block_well_formed\<close>).  In the test block \<^verbatim>\<open>reg_gen_config\<close> and
  \<^verbatim>\<open>reg_chk_config\<close> do not: each declares 1 + 16 + 16 + 8 = 41 bits over a 32-bit
  \<^verbatim>\<open>regValue\<close>; every other register of the test block does.
\<close>

theorem test_block_config_regs_41_bits:
  "ill_formed_regs test_uoe_registers = [''reg_gen_config'', ''reg_chk_config'']
   \<and> map_option reg_bits (lookup_reg test_uoe_registers ''reg_gen_config'') = Some 41
   \<and> map_option reg_bits (lookup_reg test_uoe_registers ''reg_chk_config'') = Some 41"
  by code_simp

text \<open>
  C7: in \<^verbatim>\<open>reg_arp_configuration\<close> of the main block, \<^verbatim>\<open>arp_tryings\<close> is 4 bits wide, so
  the values it can hold are exactly 0 to 15, and \<^verbatim>\<open>arp_timeout_ms\<close> is 12 bits wide, so
  the values it can hold are exactly 0 to 4095.
\<close>

theorem arp_tryings_and_timeout_ranges:
  "descriptor main_uoe_registers ''reg_arp_configuration'' ''arp_tryings''
     = Some \<lparr>f_offset = 12, f_width = 4\<rparr>
   \<and> field_values \<lparr>f_offset = 12, f_width = 4\<rparr> = {0..15}
   \<and> descriptor main_uoe_registers ''reg_arp_configuration'' ''arp_timeout_ms''
     = Some \<lparr>f_offset = 0, f_width = 12\<rparr>
   \<and> field_values \<lparr>f_offset = 0, f_width = 12\<rparr> = {0..4095}"
proof -
  have "descriptor main_uoe_registers ''reg_arp_configuration'' ''arp_tryings''
      = Some \<lparr>f_offset = 12, f_width = 4\<rparr>"
    by code_simp
  moreover have "descriptor main_uoe_registers ''reg_arp_configuration'' ''arp_timeout_ms''
      = Some \<lparr>f_offset = 0, f_width = 12\<rparr>"
    by code_simp
  moreover have "field_values \<lparr>f_offset = 12, f_width = 4\<rparr> = {0..15}"
    by (auto simp: field_values_def)
  moreover have "field_values \<lparr>f_offset = 0, f_width = 12\<rparr> = {0..4095}"
    by (auto simp: field_values_def)
  ultimately show ?thesis by simp
qed

text \<open>
  C9: \<^verbatim>\<open>T_BIT\<close> has exactly four values, encoded \<^verbatim>\<open>no_bit\<close> = 0, \<^verbatim>\<open>pbit\<close> = 1,
  \<^verbatim>\<open>ibit\<close> = 2 and \<^verbatim>\<open>cbit\<close> = 3.
\<close>

theorem T_BIT_four_values:
  "(UNIV :: T_BIT set) = {no_bit, pbit, ibit, cbit}
   \<and> card (UNIV :: T_BIT set) = 4
   \<and> T_BIT_value no_bit = 0 \<and> T_BIT_value pbit = 1
   \<and> T_BIT_value ibit = 2 \<and> T_BIT_value cbit = 3"
proof -
  have u: "(UNIV :: T_BIT set) = {no_bit, pbit, ibit, cbit}"
    by (auto intro: T_BIT.exhaust)
  then show ?thesis by (simp add: u)
qed

text \<open>
  C10: in the main block the member right after \<^verbatim>\<open>reg_config_done\<close> is the plain padding
  word \<^verbatim>\<open>padding15\<close>, directly followed by \<^verbatim>\<open>reg_monitoring_crc_filter\<close>, which is
  therefore the 17th word of the block (word index 16, byte offset 0x40); the block
  is 25 words, 100 bytes, long.
\<close>

theorem main_block_padding15_and_size:
  "next_member main_uoe_registers ''reg_config_done'' = Some (Pad ''padding15'')
   \<and> next_member main_uoe_registers ''padding15''
       = Some (Reg ''reg_monitoring_crc_filter'' [(''crc_filter_counter'', 32)])
   \<and> word_index main_uoe_registers ''reg_monitoring_crc_filter'' = Some 16
   \<and> byte_offset main_uoe_registers ''reg_monitoring_crc_filter'' = Some 0x40
   \<and> block_words main_uoe_registers = 25
   \<and> 4 * block_words main_uoe_registers = 100"
  by code_simp

section \<open>Properties of the codec\<close>

lemma insert_then_shift:
  assumes "in_word d"
  shows "drop_bit (f_offset d) (insert_field raw d v) AND mask (f_width d)
     = (of_nat v AND mask (f_width d) :: u32)"
  using assms
  by (intro bit_word_eqI) (auto simp: in_word_def insert_field_def bit_simps)

lemma unat_truncated:
  assumes "w \<le> 32"
  shows "unat (of_nat v AND mask w :: u32) = v mod 2 ^ w"
proof -
  have "unat (of_nat v AND mask w :: u32) = take_bit w (take_bit 32 v)"
    by (simp add: unsigned_take_bit_eq unsigned_of_nat flip: take_bit_eq_mask)
  also have "\<dots> = take_bit w v"
    using assms by (simp add: min_def)
  finally show ?thesis by (simp add: take_bit_eq_mod)
qed

text \<open>For a field that lies inside the 32-bit word, extraction undoes insertion.\<close>

lemma roundtrip_in_word:
  assumes "in_word d"
  shows "extract_field (insert_field raw d v) d = v mod 2 ^ f_width d"
proof -
  from assms have "f_width d \<le> 32"
    by (simp add: in_word_def)
  with assms show ?thesis
    by (simp add: extract_field_def insert_then_shift unat_truncated)
qed

text \<open>
  C1: for every field of the register maps, extracting the field after inserting \<open>v\<close>
  gives \<open>v mod 2^w\<close>.  This holds for every field inside the 32-bit word
  (\<open>roundtrip_in_word\<close>), which is every field of the main block
  (\<open>main_block_in_word\<close>).  It fails for the four fields of \<^verbatim>\<open>reg_gen_config\<close> and
  \<^verbatim>\<open>reg_chk_config\<close> that the declared widths push past bit 31: inserting 32768 into
  \<^verbatim>\<open>gen_frame_size_static\<close> (bits 17 to 32) and reading it back gives 0, and so does
  inserting 1 into \<^verbatim>\<open>gen_rate_limitation\<close> (bits 33 to 40).
\<close>

theorem roundtrip_lost_in_gen_config:
  "descriptor test_uoe_registers ''reg_gen_config'' ''gen_frame_size_static''
     = Some \<lparr>f_offset = 17, f_width = 16\<rparr>
   \<and> extract_field (insert_field 0 \<lparr>f_offset = 17, f_width = 16\<rparr> 32768)
       \<lparr>f_offset = 17, f_width = 16\<rparr> = 0
   \<and> (32768 :: nat) mod 2 ^ 16 = 32768
   \<and> descriptor test_uoe_registers ''reg_gen_config'' ''gen_rate_limitation''
     = Some \<lparr>f_offset = 33, f_width = 8\<rparr>
   \<and> extract_field (insert_field 0 \<lparr>f_offset = 33, f_width = 8\<rparr> 1)
       \<lparr>f_offset = 33, f_width = 8\<rparr> = 0
   \<and> (1 :: nat) mod 2 ^ 8 = 1"
proof -
  have "descriptor test_uoe_registers ''reg_gen_config'' ''gen_frame_size_static''
      = Some \<lparr>f_offset = 17, f_width = 16\<rparr>"
    by code_simp
  moreover have "descriptor test_uoe_registers ''reg_gen_config'' ''gen_rate_limitation''
      = Some \<lparr>f_offset = 33, f_width = 8\<rparr>"
    by code_simp
  moreover have "extract_field (insert_field 0 \<lparr>f_offset = 17, f_width = 16\<rparr> 32768)
      \<lparr>f_offset = 17, f_width = 16\<rparr> = 0"
    by (simp add: extract_field_def insert_field_def mask_numeral)
  moreover have "extract_field (insert_field 0 \<lparr>f_offset = 33, f_width = 8\<rparr> 1)
      \<lparr>f_offset = 33, f_width = 8\<rparr> = 0"
    by (simp add: extract_field_def insert_field_def mask_numeral)
  ultimately show ?thesis by simp
qed

text \<open>
  C2: \<open>insert\<close> changes no bit outside the target field: for every descriptor \<open>d\<close>, in
  particular every one of the register maps, every raw value, every value \<open>v\<close> and
  every bit position \<open>b\<close> outside the bit range of \<open>d\<close>, bit \<open>b\<close> of the result is bit
  \<open>b\<close> of the raw value.
\<close>

theorem insert_keeps_other_bits:
  "b \<notin> bit_range d \<Longrightarrow> bit (insert_field raw d v) b = bit raw b"
proof (cases "b < 32")
  case True
  assume "b \<notin> bit_range d"
  with True show ?thesis
    by (auto simp: insert_field_def bit_range_def bit_simps)
next
  case False
  then have "\<not> bit w b" for w :: u32
    by (auto dest: bit_imp_le_length)
  then show ?thesis by simp
qed

theorem insert_keeps_other_bits_witness:
  "16 \<notin> bit_range \<lparr>f_offset = 12, f_width = 4\<rparr>
   \<and> bit (insert_field 0xFFFFFFFF \<lparr>f_offset = 12, f_width = 4\<rparr> 0) 16
   \<and> bit (0xFFFFFFFF :: u32) 16"
proof -
  have h: "16 \<notin> bit_range \<lparr>f_offset = 12, f_width = 4\<rparr>"
    by (simp add: bit_range_def)
  have "bit (0xFFFFFFFF :: u32) 16"
    by simp
  with h insert_keeps_other_bits [OF h, of "0xFFFFFFFF" 0] show ?thesis
    by simp
qed

text \<open>
  C6: in strict mode \<open>insert\<close> fails with \<open>OutOfRange\<close> whenever the value exceeds
  \<open>2^width - 1\<close>, and otherwise succeeds and returns the updated raw value.
\<close>

theorem insert_strict_range:
  "(2 ^ f_width d - 1 < v \<longrightarrow> insert_strict raw d v = Inl OutOfRange)
   \<and> (v \<le> 2 ^ f_width d - 1 \<longrightarrow> insert_strict raw d v = Inr (insert_field raw d v))"
  by (simp add: insert_strict_def)

theorem insert_strict_range_witness:
  "(2 :: nat) ^ f_width \<lparr>f_offset = 12, f_width = 4\<rparr> - 1 < 16
   \<and> insert_strict 0 \<lparr>f_offset = 12, f_width = 4\<rparr> 16 = Inl OutOfRange
   \<and> 15 \<le> (2 :: nat) ^ f_width \<lparr>f_offset = 12, f_width = 4\<rparr> - 1
   \<and> insert_strict 0 \<lparr>f_offset = 12, f_width = 4\<rparr> 15 = Inr 0xF000"
proof -
  have v: "insert_field 0 \<lparr>f_offset = 12, f_width = 4\<rparr> 15 = 0xF000"
    by (simp add: insert_field_def mask_numeral)
  show ?thesis
    using insert_strict_range [of "\<lparr>f_offset = 12, f_width = 4\<rparr>" 16 0]
      insert_strict_range [of "\<lparr>f_offset = 12, f_width = 4\<rparr>" 15 0]
    by (simp add: v)
qed

section \<open>Interrupt sources\<close>

lemma main_irq_aligned:
  "list_all (irq_aligned main_uoe_registers) (irq_sources main_uoe_registers)"
  by code_simp

lemma test_irq_aligned:
  "list_all (irq_aligned test_uoe_registers) (irq_sources test_uoe_registers)"
  by code_simp

lemma source_aligned:
  assumes "blk \<in> {main_uoe_registers, test_uoe_registers}"
    and "s \<in> set (irq_sources blk)"
  shows "irq_aligned blk s"
  using assms main_irq_aligned test_irq_aligned by (auto simp: list_all_iff)

lemma aligned_bits:
  assumes "irq_aligned blk s"
  shows "\<exists>d. f_width d = 1 \<and> f_offset d < 32 \<and> (\<forall>k. irq_bit blk k s = Some d)"
proof -
  from assms obtain d where d: "irq_bit blk Status_reg s = Some d" "f_width d = 1"
      "f_offset d < 32" "list_all (\<lambda>k. irq_bit blk k s = Some d) irq_kinds"
    by (auto simp: irq_aligned_def split: option.splits)
  have "irq_bit blk k s = Some d" for k
    using d(4) by (cases k) (simp_all add: irq_kinds_def)
  with d show ?thesis by blast
qed

text \<open>The four sibling registers of a block list the same sources in the same order.\<close>

lemma main_sibling_sources:
  "map (irq_sources_of main_uoe_registers) irq_kinds
     = replicate 4 (irq_sources main_uoe_registers)"
  by code_simp

lemma test_sibling_sources:
  "map (irq_sources_of test_uoe_registers) irq_kinds
     = replicate 4 (irq_sources test_uoe_registers)"
  by code_simp

text \<open>
  C4: for every interrupt source of the main block and of the test block, the bit
  position of the source is the same in the status, enable, clear and set registers
  of that block.
\<close>

theorem irq_bit_position_shared:
  assumes "blk \<in> {main_uoe_registers, test_uoe_registers}"
    and "s \<in> set (irq_sources blk)"
  shows "\<exists>p. \<forall>k. map_option f_offset (irq_bit blk k s) = Some p"
proof -
  from aligned_bits [OF source_aligned [OF assms]] obtain d
    where "\<forall>k. irq_bit blk k s = Some d"
    by blast
  then have "\<forall>k. map_option f_offset (irq_bit blk k s) = Some (f_offset d)"
    by simp
  then show ?thesis ..
qed

theorem irq_bit_position_shared_witness:
  "test_uoe_registers \<in> {main_uoe_registers, test_uoe_registers}
   \<and> ''irq_chk_err_data'' \<in> set (irq_sources test_uoe_registers)
   \<and> (\<exists>p. \<forall>k. map_option f_offset (irq_bit test_uoe_registers k ''irq_chk_err_data'')
         = Some p)"
proof -
  have b: "test_uoe_registers \<in> {main_uoe_registers, test_uoe_registers}"
    by simp
  have s: "''irq_chk_err_data'' \<in> set (irq_sources test_uoe_registers)"
    by code_simp
  from b s irq_bit_position_shared [OF b s] show ?thesis
    by blast
qed

section \<open>Interrupt aggregator\<close>

lemma irq_mask: "f_width d = 1 \<Longrightarrow> insert_field 0 d 1 = push_bit (f_offset d) 1"
  by (simp add: insert_field_def)

lemma extract_single_bit:
  assumes "f_width d = 1"
  shows "(extract_field w d \<noteq> 0) = bit w (f_offset d)"
proof -
  have "(drop_bit (f_offset d) w AND 1 \<noteq> 0) = bit w (f_offset d)"
    by (simp add: bit_iff_odd_drop_bit and_one_eq mod_2_eq_odd)
  with assms show ?thesis
    by (simp add: extract_field_def unat_eq_0)
qed

lemma raise_bit:
  assumes "f_width d = 1" and "f_offset d < 32"
  shows "extract_field (w OR insert_field 0 d 1) d \<noteq> 0"
proof -
  have "bit (w OR push_bit (f_offset d) 1) (f_offset d)"
    using assms(2) by (simp add: bit_simps)
  then show ?thesis
    unfolding irq_mask [OF assms(1)] extract_single_bit [OF assms(1)] .
qed

lemma lower_bit:
  assumes "f_width d = 1"
  shows "\<not> extract_field (w AND NOT (insert_field 0 d 1)) d \<noteq> 0"
proof -
  have "\<not> bit (w AND NOT (push_bit (f_offset d) 1)) (f_offset d)"
    by (simp add: bit_simps)
  then show ?thesis
    unfolding irq_mask [OF assms] extract_single_bit [OF assms] .
qed

lemma force_pending:
  assumes "irq_aligned blk s"
  shows "Option.bind (force blk st s) (\<lambda>st'. is_pending blk st' s) = Some True"
proof -
  from aligned_bits [OF assms] obtain d
    where d: "f_width d = 1" "f_offset d < 32" and k: "\<forall>k. irq_bit blk k s = Some d"
    by blast
  from k show ?thesis
    using raise_bit [OF d, of "status st"] by (simp add: force_def is_pending_def)
qed

lemma clear_not_pending:
  assumes "irq_aligned blk s"
  shows "Option.bind (clear blk st s) (\<lambda>st'. is_pending blk st' s) = Some False"
proof -
  from aligned_bits [OF assms] obtain d
    where d: "f_width d = 1" and k: "\<forall>k. irq_bit blk k s = Some d"
    by blast
  from k show ?thesis
    using lower_bit [OF d, of "status st"] by (simp add: clear_def is_pending_def)
qed

lemma set_enabled_keeps_pending:
  assumes "irq_aligned blk s"
  shows "\<exists>st' p. set_enabled blk st s b = Some st' \<and> status st' = status st
     \<and> is_pending blk st' s = Some p \<and> is_pending blk st s = Some p"
proof -
  from aligned_bits [OF assms] obtain d
    where "\<forall>k. irq_bit blk k s = Some d"
    by blast
  then show ?thesis
    by (simp add: set_enabled_def is_pending_def)
qed

text \<open>
  C5: for every interrupt source \<open>s\<close> of either block, forcing \<open>s\<close> through the set
  register and then reading status reports \<open>s\<close> pending; clearing \<open>s\<close> through the clear
  register and then reading status, with no hardware assertion in between, reports
  \<open>s\<close> not pending; writing the enable bit of \<open>s\<close> (in particular disabling it) leaves
  the status register, and so what \<open>is_pending\<close> reports for \<open>s\<close>, unchanged.
\<close>

theorem aggregator_force_clear_enable:
  assumes "blk \<in> {main_uoe_registers, test_uoe_registers}"
    and "s \<in> set (irq_sources blk)"
  shows "Option.bind (force blk st s) (\<lambda>st'. is_pending blk st' s) = Some True
    \<and> Option.bind (clear blk st s) (\<lambda>st'. is_pending blk st' s) = Some False
    \<and> (\<exists>st' p. set_enabled blk st s False = Some st' \<and> status st' = status st
          \<and> is_pending blk st' s = Some p \<and> is_pending blk st s = Some p)"
proof -
  have a: "irq_aligned blk s"
    using assms by (rule source_aligned)
  from force_pending [OF a, of st] clear_not_pending [OF a, of st]
    set_enabled_keeps_pending [OF a, of st False]
  show ?thesis
    by blast
qed

theorem aggregator_force_clear_enable_witness:
  "main_uoe_registers \<in> {main_uoe_registers, test_uoe_registers}
   \<and> ''irq_arp_error'' \<in> set (irq_sources main_uoe_registers)
   \<and> Option.bind (force main_uoe_registers \<lparr>status = 0, enable = 0x1FF\<rparr> ''irq_arp_error'')
        (\<lambda>st'. is_pending main_uoe_registers st' ''irq_arp_error'') = Some True
   \<and> Option.bind (clear main_uoe_registers \<lparr>status = 0x10, enable = 0x1FF\<rparr> ''irq_arp_error'')
        (\<lambda>st'. is_pending main_uoe_registers st' ''irq_arp_error'') = Some False"
proof -
  have b: "main_uoe_registers \<in> {main_uoe_registers, test_uoe_registers}"
    by simp
  have s: "''irq_arp_error'' \<in> set (irq_sources main_uoe_registers)"
    by code_simp
  from b s aggregator_force_clear_enable [OF b s, of "\<lparr>status = 0, enable = 0x1FF\<rparr>"]
    aggregator_force_clear_enable [OF b s, of "\<lparr>status = 0x10, enable = 0x1FF\<rparr>"]
  show ?thesis
    by blast
qed

text \<open>
  C8: each of the four interrupt registers of the main block carries exactly 9 named
  sources and each of the four of the test block exactly 10; each block declares its
  own four registers, and an aggregator operation addressed to one module leaves the
  state of the other module's instance unchanged.
\<close>

theorem irq_source_counts_and_separate_state:
  "map (named_count main_uoe_registers) irq_kinds = [Some 9, Some 9, Some 9, Some 9]
   \<and> map (named_count test_uoe_registers) irq_kinds = [Some 10, Some 10, Some 10, Some 10]
   \<and> length (irq_sources main_uoe_registers) = 9
   \<and> length (irq_sources test_uoe_registers) = 10
   \<and> (\<forall>op sys sys'. on_module Main_engine op sys = Some sys'
         \<longrightarrow> test_irq sys' = test_irq sys)
   \<and> (\<forall>op sys sys'. on_module Test_engine op sys = Some sys'
         \<longrightarrow> main_irq sys' = main_irq sys)"
proof -
  have "map (named_count main_uoe_registers) irq_kinds = [Some 9, Some 9, Some 9, Some 9]"
    by code_simp
  moreover have "map (named_count test_uoe_registers) irq_kinds
      = [Some 10, Some 10, Some 10, Some 10]"
    by code_simp
  moreover have "length (irq_sources main_uoe_registers) = 9"
    by code_simp
  moreover have "length (irq_sources test_uoe_registers) = 10"
    by code_simp
  moreover have "test_irq sys' = test_irq sys"
    if "on_module Main_engine op sys = Some sys'" for op sys sys'
    using that by auto
  moreover have "main_irq sys' = main_irq sys"
    if "on_module Test_engine op sys = Some sys'" for op sys sys'
    using that by auto
  ultimately show ?thesis by blast
qed

theorem irq_source_counts_and_separate_state_witness:
  "on_module Main_engine (\<lambda>blk st. force blk st ''irq_init_done'')
       \<lparr>main_irq = \<lparr>status = 0, enable = 0\<rparr>, test_irq = \<lparr>status = 5, enable = 7\<rparr>\<rparr>
     = Some \<lparr>main_irq = \<lparr>status = 1, enable = 0\<rparr>, test_irq = \<lparr>status = 5, enable = 7\<rparr>\<rparr>
   \<and> test_irq \<lparr>main_irq = \<lparr>status = 1, enable = 0\<rparr>, test_irq = \<lparr>status = 5, enable = 7\<rparr>\<rparr>
     = test_irq \<lparr>main_irq = \<lparr>status = 0, enable = 0\<rparr>, test_irq = \<lparr>status = 5, enable = 7\<rparr>\<rparr>
   \<and> on_module Test_engine (\<lambda>blk st. clear blk st ''irq_gen_done'')
       \<lparr>main_irq = \<lparr>status = 0, enable = 0\<rparr>, test_irq = \<lparr>status = 5, enable = 7\<rparr>\<rparr>
     = Some \<lparr>main_irq = \<lparr>status = 0, enable = 0\<rparr>, test_irq = \<lparr>status = 4, enable = 7\<rparr>\<rparr>
   \<and> main_irq \<lparr>main_irq = \<lparr>status = 0, enable = 0\<rparr>, test_irq = \<lparr>status = 4, enable = 7\<rparr>\<rparr>
     = main_irq \<lparr>main_irq = \<lparr>status = 0, enable = 0\<rparr>, test_irq = \<lparr>status = 5, enable = 7\<rparr>\<rparr>"
proof -
  have m: "irq_bit main_uoe_registers Set_reg ''irq_init_done''
      = Some \<lparr>f_offset = 0, f_width = 1\<rparr>"
    by code_simp
  have t: "irq_bit test_uoe_registers Clear_reg ''irq_gen_done''
      = Some \<lparr>f_offset = 0, f_width = 1\<rparr>"
    by code_simp
  have h1: "on_module Main_engine (\<lambda>blk st. force blk st ''irq_init_done'')
       \<lparr>main_irq = \<lparr>status = 0, enable = 0\<rparr>, test_irq = \<lparr>status = 5, enable = 7\<rparr>\<rparr>
     = Some \<lparr>main_irq = \<lparr>status = 1, enable = 0\<rparr>, test_irq = \<lparr>status = 5, enable = 7\<rparr>\<rparr>"
    by (simp add: force_def m insert_field_def)
  have h2: "on_module Test_engine (\<lambda>blk st. clear blk st ''irq_gen_done'')
       \<lparr>main_irq = \<lparr>status = 0, enable = 0\<rparr>, test_irq = \<lparr>status = 5, enable = 7\<rparr>\<rparr>
     = Some \<lparr>main_irq = \<lparr>status = 0, enable = 0\<rparr>, test_irq = \<lparr>status = 4, enable = 7\<rparr>\<rparr>"
    by (simp add: clear_def t insert_field_def)
  from h1 h2 irq_source_counts_and_separate_state show ?thesis
    by blast
qed

end
